theory Spec2Isabelle
  imports Main "HOL-Library.Word"
begin

section \<open>Data model\<close>

text \<open>
  A JavaScript string is a sequence of UTF-16 code units. Identifiers issued by the
  database are uuids; the client only stores them and compares them for equality, the
  database also orders them (as 128-bit values). A message id is kept as a string,
  because the client mints placeholder ids (\<^verbatim>\<open>temp-\<close> followed by the clock's
  milliseconds) that are no uuids. The \<open>created_at\<close> of a message is modelled by the
  instant it denotes (milliseconds since the epoch), which is what "ordered by creation
  time" compares.
\<close>

type_synonym js_string = "16 word list"
type_synonym uuid = "128 word"

definition js :: "string \<Rightarrow> js_string" where
  "js s = map (\<lambda>c. of_nat (of_char c)) s"

record Message =
  msg_id :: js_string
  conversation_id :: uuid
  sender_id :: uuid
  content :: js_string
  created_at :: int

record Profile =
  p_id :: uuid
  p_user_id :: uuid
  p_username :: js_string
  p_email :: js_string
  p_created_at :: js_string

record User =
  u_id :: uuid
  u_email :: js_string
  u_username :: js_string

text \<open>
  The error object of a backend response, with its \<open>code\<close> field. What a \<open>try\<close>
  block can catch is such an object (\<open>throw error\<close>) or the reason of a rejected
  promise.
\<close>

datatype backend_error = BackendError (code: string)

datatype thrown = Thrown backend_error | RejectedPromise

section \<open>String operations of the language\<close>

text \<open>
  \<open>String.prototype.trim\<close> strips WhiteSpace and LineTerminator code points from both
  ends; all of them lie in the basic plane, so each is one code unit.
\<close>

definition is_white_space :: "16 word \<Rightarrow> bool" where
  "is_white_space c \<longleftrightarrow>
     c = 0x0009 \<or> c = 0x000A \<or> c = 0x000B \<or> c = 0x000C \<or> c = 0x000D \<or> c = 0x0020 \<or>
     c = 0x00A0 \<or> c = 0x1680 \<or> (0x2000 \<le> c \<and> c \<le> 0x200A) \<or> c = 0x2028 \<or>
     c = 0x2029 \<or> c = 0x202F \<or> c = 0x205F \<or> c = 0x3000 \<or> c = 0xFEFF"

definition trim :: "js_string \<Rightarrow> js_string" where
  "trim s = rev (dropWhile is_white_space (rev (dropWhile is_white_space s)))"

text \<open>Decimal rendering of a non-negative integer, as a template literal does.\<close>

fun dec :: "nat \<Rightarrow> js_string" where
  "dec n = (if n < 10 then [of_nat (48 + n)] else dec (n div 10) @ [of_nat (48 + n mod 10)])"

text \<open>\<open>`temp-${Date.now()}`\<close>\<close>

definition temp_id :: "nat \<Rightarrow> js_string" where
  "temp_id now = js ''temp-'' @ dec now"

section \<open>ChatWindow: the message list\<close>

text \<open>
  The three functional updates that the component passes to \<open>setMessages\<close>.
  \<^item> the push handler: \<open>prev.some(m => m.id === newMsg.id) ? prev : [...prev, newMsg]\<close>
  \<^item> success of a send: \<open>prev.map(m => m.id === tempMsg.id ? data : m)\<close>
  \<^item> failure of a send: \<open>prev.filter(m => m.id !== tempMsg.id)\<close>
\<close>

definition on_insert :: "Message \<Rightarrow> Message list \<Rightarrow> Message list" where
  "on_insert newMsg prev =
     (if list_ex (\<lambda>m. msg_id m = msg_id newMsg) prev then prev else prev @ [newMsg])"

definition on_inserts :: "Message list \<Rightarrow> Message list \<Rightarrow> Message list" where
  "on_inserts pushed prev = foldl (\<lambda>p m. on_insert m p) prev pushed"

definition reconcile :: "js_string \<Rightarrow> Message \<Rightarrow> Message list \<Rightarrow> Message list" where
  "reconcile tempId data prev = map (\<lambda>m. if msg_id m = tempId then data else m) prev"

definition rollback :: "js_string \<Rightarrow> Message list \<Rightarrow> Message list" where
  "rollback tempId prev = filter (\<lambda>m. msg_id m \<noteq> tempId) prev"

section \<open>The profiles, conversations and messages tables\<close>

text \<open>
  Of a row of \<open>profiles\<close> only its \<open>id\<close> and the \<open>user_id\<close> it belongs to are kept, as
  a pair; a row of \<open>conversations\<close> is kept without its two timestamps, which nothing
  here reads.
\<close>

record conversation =
  conv_id :: uuid
  user1_id :: uuid
  user2_id :: uuid

record backend =
  profile_rows :: "(uuid \<times> uuid) list"
  conversation_rows :: "conversation list"
  message_rows :: "Message list"

text \<open>
  \<open>SELECT id FROM profiles WHERE user_id = auth.uid()\<close>, the subquery of the row-level
  policies; \<open>uid\<close> is the user that the request is authenticated for.
\<close>

definition own_profiles :: "(uuid \<times> uuid) list \<Rightarrow> uuid \<Rightarrow> uuid list" where
  "own_profiles profiles uid = map fst (filter (\<lambda>(i, u). u = uid) profiles)"

text \<open>
  The condition of the policies \<open>conversations_select_own\<close> (\<open>USING\<close>) and
  \<open>conversations_insert_own\<close> (\<open>WITH CHECK\<close>).
\<close>

definition conversations_own :: "(uuid \<times> uuid) list \<Rightarrow> uuid \<Rightarrow> conversation \<Rightarrow> bool" where
  "conversations_own profiles uid r \<longleftrightarrow>
     user1_id r \<in> set (own_profiles profiles uid) \<or> user2_id r \<in> set (own_profiles profiles uid)"

text \<open>The \<open>BEFORE INSERT\<close> trigger function of the migration.\<close>

definition normalize_conversation_users :: "conversation \<Rightarrow> conversation" where
  "normalize_conversation_users NEW =
     (if user1_id NEW > user2_id NEW
      then NEW\<lparr>user1_id := user2_id NEW, user2_id := user1_id NEW\<rparr>
      else NEW)"

text \<open>
  \<open>insert({user1_id, user2_id}).select('id').single()\<close>: the default of \<open>id\<close> is
  \<open>gen_random_uuid()\<close>, here the argument \<open>new_id\<close>. The trigger runs first; then the
  database checks the insert policy (SQLSTATE 42501), the check constraint
  \<open>different_users\<close> (23514), the primary key and the constraint
  \<open>unique_conversation_pair\<close> (both 23505), and last the two foreign keys into
  \<open>profiles\<close> (23503).
\<close>

definition insert_conversation ::
  "(uuid \<times> uuid) list \<Rightarrow> uuid \<Rightarrow> uuid \<Rightarrow> uuid \<Rightarrow> uuid \<Rightarrow> conversation list
     \<Rightarrow> backend_error + (conversation list \<times> uuid)" where
  "insert_conversation profiles uid new_id u1 u2 rows =
     (let NEW = normalize_conversation_users \<lparr>conv_id = new_id, user1_id = u1, user2_id = u2\<rparr>
      in if \<not> conversations_own profiles uid NEW then Inl (BackendError ''42501'')
         else if user1_id NEW = user2_id NEW then Inl (BackendError ''23514'')
         else if list_ex (\<lambda>r. conv_id r = conv_id NEW) rows then Inl (BackendError ''23505'')
         else if list_ex (\<lambda>r. user1_id r = user1_id NEW \<and> user2_id r = user2_id NEW) rows
           then Inl (BackendError ''23505'')
         else if user1_id NEW \<in> set (map fst profiles) \<and> user2_id NEW \<in> set (map fst profiles)
           then Inr (rows @ [NEW], conv_id NEW)
         else Inl (BackendError ''23503''))"

text \<open>
  \<open>select('id').or(and(user1_id.eq.a,user2_id.eq.b),and(user1_id.eq.b,user2_id.eq.a)).limit(1)\<close>,
  over the rows that the select policy lets the user see.
\<close>

definition select_conversation ::
  "(uuid \<times> uuid) list \<Rightarrow> uuid \<Rightarrow> uuid \<Rightarrow> uuid \<Rightarrow> conversation list \<Rightarrow> uuid list" where
  "select_conversation profiles uid a b rows =
     map conv_id (take 1 (filter (\<lambda>r. conversations_own profiles uid r \<and>
                                       ((user1_id r = a \<and> user2_id r = b) \<or>
                                        (user1_id r = b \<and> user2_id r = a))) rows))"

text \<open>
  \<open>eq('conversation_id', convId).order('created_at', {ascending: true}).limit(100)\<close>.
  It is only asked for a conversation that the lookup or the insert has just returned
  to this user, for which the policy \<open>messages_select_own\<close> passes.
\<close>

definition select_messages :: "uuid \<Rightarrow> Message list \<Rightarrow> Message list" where
  "select_messages convId rows =
     take 100 (sort_key created_at (filter (\<lambda>m. conversation_id m = convId) rows))"

section \<open>ChatWindow: opening a conversation\<close>

text \<open>
  The state of the component: its four \<open>useState\<close> cells and its refs. \<open>channelRef\<close>
  holds the conversation whose inserts the open channel delivers.
\<close>

record chat_state =
  messages :: "Message list"
  newMessage :: js_string
  cw_loading :: bool
  sending :: bool
  conversationIdRef :: "uuid option"
  channelRef :: "uuid option"
  hasInitialized :: bool

text \<open>
  Inserts of other clients, each \<open>(uid, id, user1_id, user2_id)\<close>, committed one after
  the other; one that the database refuses leaves the table as it is.
\<close>

definition commit_inserts ::
  "(uuid \<times> uuid) list \<Rightarrow> (uuid \<times> uuid \<times> uuid \<times> uuid) list \<Rightarrow> conversation list \<Rightarrow> conversation list" where
  "commit_inserts profiles others rows =
     foldl (\<lambda>rs (uid, i, u1, u2). case insert_conversation profiles uid i u1 u2 rs of
                                      Inl error \<Rightarrow> rs
                                    | Inr (rs', convId) \<Rightarrow> rs') rows others"


text \<open>
  A request can also fail on the way (network, expired token): a select then leaves
  its \<open>data\<close> \<open>null\<close>, the insert answers with an \<open>error\<close> and writes nothing.
\<close>

record faults =
  lookup_fails :: bool
  insert_fails :: bool
  load_fails :: bool

text \<open>
  The first half of \<open>initChat\<close>: look the pair up, and insert it when the lookup
  returns no row (\<open>convs && convs.length > 0\<close> is false). The two requests are two
  round trips; \<open>others\<close> are the inserts of other clients that the database commits
  between them. An \<open>error\<close> of the insert is thrown.
\<close>

definition find_or_create ::
  "faults \<Rightarrow> (uuid \<times> uuid) list \<Rightarrow> uuid \<Rightarrow> (uuid \<times> uuid \<times> uuid \<times> uuid) list \<Rightarrow> uuid \<Rightarrow> uuid \<Rightarrow> uuid
     \<Rightarrow> conversation list \<Rightarrow> conversation list \<times> (backend_error + uuid)" where
  "find_or_create f profiles uid others new_id profile_id other_id rows =
     (case (if lookup_fails f then None
            else Some (select_conversation profiles uid profile_id other_id rows)) of
        Some (convId # _) \<Rightarrow> (rows, Inr convId)
      | _ \<Rightarrow>
         (case (if insert_fails f then Inl (BackendError [])
                else insert_conversation profiles uid new_id profile_id other_id
                       (commit_inserts profiles others rows)) of
            Inl error \<Rightarrow> (commit_inserts profiles others rows, Inl error)
          | Inr (rows', convId) \<Rightarrow> (rows', Inr convId)))"

text \<open>
  \<open>initChat\<close>: on success the page of messages is loaded (\<open>msgs || []\<close>) and the
  channel is opened; the \<open>catch\<close> block logs the error and ends the loading state, and
  nothing else of the state is written on that path.
\<close>

definition initChat ::
  "faults \<Rightarrow> uuid \<Rightarrow> (uuid \<times> uuid \<times> uuid \<times> uuid) list \<Rightarrow> uuid \<Rightarrow> uuid \<Rightarrow> uuid \<Rightarrow> backend \<Rightarrow> chat_state
     \<Rightarrow> backend \<times> chat_state" where
  "initChat f uid others new_id profile_id other_id be st =
     (case find_or_create f (profile_rows be) uid others new_id profile_id other_id
             (conversation_rows be) of
        (rows, Inl error) \<Rightarrow> (be\<lparr>conversation_rows := rows\<rparr>, st\<lparr>cw_loading := False\<rparr>)
      | (rows, Inr convId) \<Rightarrow>
          (be\<lparr>conversation_rows := rows\<rparr>,
           st\<lparr>conversationIdRef := Some convId,
              messages := (if load_fails f then [] else select_messages convId (message_rows be)),
              channelRef := Some convId,
              cw_loading := False\<rparr>))"

text \<open>The effect that starts \<open>initChat\<close>, with its guard.\<close>

definition useEffect_chat ::
  "faults \<Rightarrow> uuid \<Rightarrow> (uuid \<times> uuid \<times> uuid \<times> uuid) list \<Rightarrow> uuid \<Rightarrow> uuid option \<Rightarrow> uuid \<Rightarrow> backend
     \<Rightarrow> chat_state \<Rightarrow> backend \<times> chat_state" where
  "useEffect_chat f uid others new_id profile_id other_id be st =
     (case profile_id of
        None \<Rightarrow> (be, st)
      | Some pid \<Rightarrow>
          if hasInitialized st then (be, st)
          else initChat f uid others new_id pid other_id be (st\<lparr>hasInitialized := True\<rparr>))"

section \<open>ChatWindow: sending\<close>

text \<open>
  \<open>handleSend\<close> up to its \<open>await\<close>: the guard, the placeholder, the three state
  updates. \<open>now\<close> is \<open>Date.now()\<close> and \<open>created\<close> the instant of \<open>new Date()\<close>. The
  result carries the placeholder and the trimmed content that the rest of the call
  closes over, or \<open>None\<close> when the guard returned.
\<close>

definition handleSend_submit ::
  "uuid option \<Rightarrow> nat \<Rightarrow> int \<Rightarrow> chat_state \<Rightarrow> chat_state \<times> (Message \<times> js_string) option" where
  "handleSend_submit profile_id now created st =
     (let content' = trim (newMessage st) in
      case (conversationIdRef st, profile_id) of
        (Some convId, Some pid) \<Rightarrow>
          if content' = [] \<or> sending st then (st, None)
          else
            let tempMsg = \<lparr>msg_id = temp_id now, conversation_id = convId, sender_id = pid,
                           content = content', created_at = created\<rparr>
            in (st\<lparr>messages := messages st @ [tempMsg], newMessage := [], sending := True\<rparr>,
                Some (tempMsg, content'))
      | _ \<Rightarrow> (st, None))"

text \<open>
  The rest of \<open>handleSend\<close>, once the insert has answered: \<open>Inr data\<close> is the stored
  row, \<open>Inl\<close> an error that the \<open>try\<close> block throws or a rejected request.
\<close>

definition handleSend_settle ::
  "Message \<Rightarrow> js_string \<Rightarrow> thrown + Message \<Rightarrow> chat_state \<Rightarrow> chat_state" where
  "handleSend_settle tempMsg content' answer st =
     (case answer of
        Inr data \<Rightarrow>
          st\<lparr>messages := reconcile (msg_id tempMsg) data (messages st), sending := False\<rparr>
      | Inl error \<Rightarrow>
          st\<lparr>messages := rollback (msg_id tempMsg) (messages st), newMessage := content',
             sending := False\<rparr>)"

text \<open>
  A whole send: \<open>pushed\<close> are the inserts that the channel delivers while the write is
  in flight, each merged by the push handler.
\<close>

definition handleSend ::
  "uuid option \<Rightarrow> nat \<Rightarrow> int \<Rightarrow> Message list \<Rightarrow> thrown + Message \<Rightarrow> chat_state \<Rightarrow> chat_state" where
  "handleSend profile_id now created pushed answer st =
     (case handleSend_submit profile_id now created st of
        (st1, None) \<Rightarrow> st1
      | (st1, Some (tempMsg, content')) \<Rightarrow>
          handleSend_settle tempMsg content' answer
            (st1\<lparr>messages := on_inserts pushed (messages st1)\<rparr>))"

text \<open>Non-decreasing by creation time.\<close>

definition ordered_by_time :: "Message list \<Rightarrow> bool" where
  "ordered_by_time ms = sorted (map created_at ms)"

section \<open>AuthContext: the profile cache\<close>

text \<open>
  A row of \<open>profiles\<close> as the backend returns it; a column may come back \<open>null\<close>.
  A response of the client library is the pair \<open>{data, error}\<close>, unless the request
  itself is rejected.
\<close>

record profile_row =
  r_id :: uuid
  r_user_id :: uuid
  r_username :: "js_string option"
  r_email :: "js_string option"
  r_created_at :: "js_string option"

datatype 'a response = Response (resp_data: "'a option") (resp_error: "backend_error option") | Rejected

text \<open>\<open>a || b\<close> on a string that may be \<open>null\<close>: the empty string is falsy too.\<close>

definition or_str :: "js_string option \<Rightarrow> js_string \<Rightarrow> js_string" where
  "or_str a b = (case a of None \<Rightarrow> b | Some s \<Rightarrow> if s = [] then b else s)"

text \<open>\<open>split('@')[0]\<close>\<close>

definition before_at :: "js_string \<Rightarrow> js_string" where
  "before_at s = takeWhile (\<lambda>c. c \<noteq> 0x40) s"

definition formattedProfile :: "js_string \<Rightarrow> profile_row \<Rightarrow> Profile" where
  "formattedProfile now_iso row =
     \<lparr>p_id = r_id row,
      p_user_id = r_user_id row,
      p_username = or_str (r_username row) (or_str (map_option before_at (r_email row)) (js ''User'')),
      p_email = or_str (r_email row) [],
      p_created_at = or_str (r_created_at row) now_iso\<rparr>"

text \<open>\<open>if (error && error.code !== 'PGRST116') throw error\<close>\<close>

definition rethrown :: "backend_error option \<Rightarrow> backend_error option" where
  "rethrown error =
     (case error of
        None \<Rightarrow> None
      | Some e \<Rightarrow> if code e \<noteq> ''PGRST116'' then Some e else None)"

text \<open>The \<open>try\<close> block of \<open>fetchProfile\<close>, entered on a cache miss.\<close>

definition fetchProfile_try ::
  "js_string \<Rightarrow> profile_row response \<Rightarrow> uuid \<Rightarrow> (uuid \<rightharpoonup> Profile)
     \<Rightarrow> thrown + ((uuid \<rightharpoonup> Profile) \<times> Profile option)" where
  "fetchProfile_try now_iso answer userId cache =
     (case answer of
        Rejected \<Rightarrow> Inl RejectedPromise
      | Response row error \<Rightarrow>
          (case rethrown error of
             Some e \<Rightarrow> Inl (Thrown e)
           | None \<Rightarrow>
               (case row of
                  Some r \<Rightarrow>
                    Inr (cache(userId \<mapsto> formattedProfile now_iso r), Some (formattedProfile now_iso r))
                | None \<Rightarrow> Inr (cache, None))))"

text \<open>
  \<open>fetchProfile\<close>. \<open>answer\<close> is what the backend would answer to the request for
  \<open>userId\<close>, \<open>None\<close> when it never answers. The result is the cache afterwards, the
  value returned, and the requests sent to the backend; it is \<open>None\<close> when the call
  never returns.
\<close>

definition fetchProfile ::
  "js_string \<Rightarrow> profile_row response option \<Rightarrow> uuid \<Rightarrow> (uuid \<rightharpoonup> Profile)
     \<Rightarrow> ((uuid \<rightharpoonup> Profile) \<times> Profile option \<times> uuid list) option" where
  "fetchProfile now_iso answer userId cache =
     (case cache userId of
        Some p \<Rightarrow> Some (cache, Some p, [])
      | None \<Rightarrow>
          (case answer of
             None \<Rightarrow> None
           | Some a \<Rightarrow>
               (case fetchProfile_try now_iso a userId cache of
                  Inl err \<Rightarrow> Some (cache, None, [userId])
                | Inr (cache', result) \<Rightarrow> Some (cache', result, [userId]))))"

section \<open>AuthContext: the session\<close>

text \<open>
  The state of \<open>AuthProvider\<close>. The only timer callback of the component is
  \<open>setLoading(false)\<close>, so a pending timer is its id and the time at which it is due;
  \<open>clock\<close> is the time of the event loop in milliseconds.
\<close>

record session_user =
  su_id :: uuid
  su_email :: "js_string option"

datatype session_answer = Session "session_user option" | SessionRejected

record auth_state =
  user :: "User option"
  profile :: "Profile option"
  loading :: bool
  profileCache :: "uuid \<rightharpoonup> Profile"
  sessionChecked :: bool
  timers :: "(nat \<times> nat) list"
  next_timer :: nat
  clock :: nat

definition setTimeout :: "nat \<Rightarrow> auth_state \<Rightarrow> nat \<times> auth_state" where
  "setTimeout delay st =
     (next_timer st,
      st\<lparr>timers := timers st @ [(next_timer st, clock st + delay)],
         next_timer := Suc (next_timer st)\<rparr>)"

definition clearTimeout :: "nat \<Rightarrow> auth_state \<Rightarrow> auth_state" where
  "clearTimeout timeoutId st = st\<lparr>timers := filter (\<lambda>(i, due). i \<noteq> timeoutId) (timers st)\<rparr>"

text \<open>Time passes: every timer that has become due runs its callback and is gone.\<close>

definition advance :: "nat \<Rightarrow> auth_state \<Rightarrow> auth_state" where
  "advance dt st =
     (let t = clock st + dt in
      st\<lparr>clock := t,
         timers := filter (\<lambda>(i, due). \<not> due \<le> t) (timers st),
         loading := (if list_ex (\<lambda>(i, due). due \<le> t) (timers st) then False else loading st)\<rparr>)"

text \<open>
  \<open>updateUserState\<close>; \<open>None\<close> when the profile fetch it awaits never returns. Its
  \<open>try\<close> block has nothing that throws, \<open>fetchProfile\<close> catching its own errors.
\<close>

definition updateUserState ::
  "js_string \<Rightarrow> profile_row response option \<Rightarrow> session_user \<Rightarrow> auth_state \<Rightarrow> auth_state option" where
  "updateUserState now_iso answer sessionUser st =
     (case fetchProfile now_iso answer (su_id sessionUser) (profileCache st) of
        None \<Rightarrow> None
      | Some (cache', profileData, requests) \<Rightarrow>
          (let newUser =
                 \<lparr>u_id = su_id sessionUser,
                  u_email = or_str (su_email sessionUser) [],
                  u_username = or_str (map_option p_username profileData)
                                 (or_str (map_option before_at (su_email sessionUser)) (js ''User''))\<rparr>
           in Some (st\<lparr>profileCache := cache',
                       user := Some newUser,
                       profile := Some (case profileData of
                                          Some p \<Rightarrow> p
                                        | None \<Rightarrow>
                                            \<lparr>p_id = su_id sessionUser,
                                             p_user_id = su_id sessionUser,
                                             p_username = u_username newUser,
                                             p_email = u_email newUser,
                                             p_created_at = now_iso\<rparr>)\<rparr>)))"

text \<open>
  The bootstrap effect up to the point where it returns its cleanup: the guard, the
  safety timer, the start of \<open>initAuth\<close> (which runs on at \<open>initAuth\<close> below, once
  the session request has answered) and the registration of the listener, whose
  failure is caught. The second component is the \<open>timeoutId\<close> that the closures keep.
\<close>

definition useEffect_auth :: "bool \<Rightarrow> auth_state \<Rightarrow> auth_state \<times> nat option" where
  "useEffect_auth listener_throws st =
     (if sessionChecked st then (st, None)
      else
        (case setTimeout 2000 (st\<lparr>sessionChecked := True\<rparr>) of
           (timeoutId, st1) \<Rightarrow>
             (if listener_throws then (clearTimeout timeoutId st1)\<lparr>loading := False\<rparr> else st1,
              Some timeoutId)))"

text \<open>
  \<open>initAuth\<close> from its first \<open>await\<close> on. \<open>session\<close> is the answer to \<open>getSession\<close>,
  \<open>None\<close> when there is none ever; then, and when \<open>updateUserState\<close> never returns,
  nothing of the function runs, its \<open>finally\<close> block included.
\<close>

definition initAuth ::
  "nat \<Rightarrow> js_string \<Rightarrow> session_answer option \<Rightarrow> profile_row response option \<Rightarrow> auth_state
     \<Rightarrow> auth_state" where
  "initAuth timeoutId now_iso session answer st =
     (case session of
        None \<Rightarrow> st
      | Some SessionRejected \<Rightarrow> (clearTimeout timeoutId st)\<lparr>loading := False\<rparr>
      | Some (Session None) \<Rightarrow> (clearTimeout timeoutId st)\<lparr>loading := False\<rparr>
      | Some (Session (Some sessionUser)) \<Rightarrow>
          (case updateUserState now_iso answer sessionUser st of
             None \<Rightarrow> st
           | Some st' \<Rightarrow> (clearTimeout timeoutId st')\<lparr>loading := False\<rparr>))"

text \<open>
  Bootstrap as a whole: the effect runs, the backend answers (or not), and \<open>dt\<close>
  milliseconds pass.
\<close>

definition bootstrap ::
  "bool \<Rightarrow> js_string \<Rightarrow> session_answer option \<Rightarrow> profile_row response option \<Rightarrow> nat \<Rightarrow> auth_state
     \<Rightarrow> auth_state" where
  "bootstrap listener_throws now_iso session answer dt st =
     (case useEffect_auth listener_throws st of
        (st1, None) \<Rightarrow> advance dt st1
      | (st1, Some timeoutId) \<Rightarrow> advance dt (initAuth timeoutId now_iso session answer st1))"

text \<open>\<open>signOut\<close>: \<open>error\<close> is the error of the backend's answer, thrown when present.\<close>

definition signOut :: "backend_error option \<Rightarrow> auth_state \<Rightarrow> thrown + auth_state" where
  "signOut error st =
     (case error of
        Some e \<Rightarrow> Inl (Thrown e)
      | None \<Rightarrow> Inr (st\<lparr>user := None, profile := None, profileCache := Map.empty\<rparr>))"

text \<open>
  Values for the worked examples: a message, a row of conversations and a component
  state from their fields, a backend whose requests all arrive, and a table of
  profiles in which profile 1 belongs to user 11 and profile 2 to user 12.
\<close>

abbreviation Msg :: "string \<Rightarrow> uuid \<Rightarrow> uuid \<Rightarrow> string \<Rightarrow> int \<Rightarrow> Message" where
  "Msg i c s t at \<equiv>
     \<lparr>msg_id = js i, conversation_id = c, sender_id = s, content = js t, created_at = at\<rparr>"

abbreviation no_faults :: faults where
  "no_faults \<equiv> \<lparr>lookup_fails = False, insert_fails = False, load_fails = False\<rparr>"

abbreviation two_profiles :: "(uuid \<times> uuid) list" where
  "two_profiles \<equiv> [(1, 11), (2, 12)]"

abbreviation Conv :: "uuid \<Rightarrow> uuid \<Rightarrow> uuid \<Rightarrow> conversation" where
  "Conv c u1 u2 \<equiv> \<lparr>conv_id = c, user1_id = u1, user2_id = u2\<rparr>"

abbreviation Chat :: "Message list \<Rightarrow> string \<Rightarrow> bool \<Rightarrow> uuid option \<Rightarrow> chat_state" where
  "Chat ms draft busy conv \<equiv>
     \<lparr>messages = ms, newMessage = js draft, cw_loading = False, sending = busy,
      conversationIdRef = conv, channelRef = conv, hasInitialized = True\<rparr>"

text \<open>A row of profiles, a formatted profile and a provider state, for the same purpose.\<close>

abbreviation Row :: "uuid \<Rightarrow> uuid \<Rightarrow> string \<Rightarrow> string \<Rightarrow> profile_row" where
  "Row i u n e \<equiv> \<lparr>r_id = i, r_user_id = u, r_username = Some (js n), r_email = Some (js e),
     r_created_at = Some (js ''2025-11-03'')\<rparr>"

abbreviation Prof :: "uuid \<Rightarrow> uuid \<Rightarrow> string \<Rightarrow> string \<Rightarrow> Profile" where
  "Prof i u n e \<equiv> \<lparr>p_id = i, p_user_id = u, p_username = js n, p_email = js e,
     p_created_at = js ''2025-11-03''\<rparr>"

abbreviation Auth :: "(uuid \<rightharpoonup> Profile) \<Rightarrow> auth_state" where
  "Auth cache \<equiv> \<lparr>user = None, profile = None, loading = False, profileCache = cache,
     sessionChecked = True, timers = [], next_timer = 1, clock = 5000\<rparr>"

section \<open>Idempotent merge of pushed inserts\<close>

lemma on_insert_present:
  "list_ex (\<lambda>m. msg_id m = msg_id newMsg) prev \<Longrightarrow> on_insert newMsg prev = prev"
  by (simp add: on_insert_def)

text \<open>
  C3. A pushed insert whose id is the id of a message already in the list leaves the
  list as it is, and so does any number of such inserts, one after the other.
\<close>

theorem on_insert_duplicate_idempotent:
  "(msg_id newMsg \<in> msg_id ` set prev \<longrightarrow> on_insert newMsg prev = prev) \<and>
   ((\<forall>m \<in> set pushed. msg_id m \<in> msg_id ` set prev) \<longrightarrow>
      on_inserts pushed prev = prev \<and> length (on_inserts pushed prev) = length prev)"
proof
  show "msg_id newMsg \<in> msg_id ` set prev \<longrightarrow> on_insert newMsg prev = prev"
    by (auto simp: on_insert_def list_ex_iff)
next
  have "(\<forall>m \<in> set pushed. msg_id m \<in> msg_id ` set prev) \<Longrightarrow> on_inserts pushed prev = prev"
  proof (induction pushed)
    case Nil
    show ?case by (simp add: on_inserts_def)
  next
    case (Cons m pushed)
    from Cons.prems have "list_ex (\<lambda>x. msg_id x = msg_id m) prev"
      by (auto simp: list_ex_iff)
    then have "on_insert m prev = prev" by (rule on_insert_present)
    with Cons show ?case by (simp add: on_inserts_def)
  qed
  then show "(\<forall>m \<in> set pushed. msg_id m \<in> msg_id ` set prev) \<longrightarrow>
      on_inserts pushed prev = prev \<and> length (on_inserts pushed prev) = length prev"
    by simp
qed

theorem on_insert_duplicate_idempotent_witness:
  "msg_id (Msg ''m2'' 7 2 ''again'' 9) \<in> msg_id ` set [Msg ''m1'' 7 1 ''hi'' 3, Msg ''m2'' 7 2 ''yo'' 4] \<and>
   on_insert (Msg ''m2'' 7 2 ''again'' 9) [Msg ''m1'' 7 1 ''hi'' 3, Msg ''m2'' 7 2 ''yo'' 4]
     = [Msg ''m1'' 7 1 ''hi'' 3, Msg ''m2'' 7 2 ''yo'' 4] \<and>
   msg_id (Msg ''m1'' 7 1 ''hi'' 3) \<in> msg_id ` set [Msg ''m1'' 7 1 ''hi'' 3, Msg ''m2'' 7 2 ''yo'' 4] \<and>
   msg_id (Msg ''m2'' 7 2 ''yo'' 4) \<in> msg_id ` set [Msg ''m1'' 7 1 ''hi'' 3, Msg ''m2'' 7 2 ''yo'' 4] \<and>
   on_inserts [Msg ''m2'' 7 2 ''again'' 9, Msg ''m1'' 7 1 ''hi'' 3, Msg ''m2'' 7 2 ''yo'' 4]
       [Msg ''m1'' 7 1 ''hi'' 3, Msg ''m2'' 7 2 ''yo'' 4]
     = [Msg ''m1'' 7 1 ''hi'' 3, Msg ''m2'' 7 2 ''yo'' 4]"
  using on_insert_duplicate_idempotent
    [of "Msg ''m2'' 7 2 ''again'' 9" "[Msg ''m1'' 7 1 ''hi'' 3, Msg ''m2'' 7 2 ''yo'' 4]"
        "[Msg ''m2'' 7 2 ''again'' 9, Msg ''m1'' 7 1 ''hi'' 3, Msg ''m2'' 7 2 ''yo'' 4]"]
  by simp

section \<open>Reconciling a confirmed send\<close>

text \<open>
  C10. On a successful send the message list becomes \<open>reconcile\<close> of the placeholder id
  and the stored row: the list keeps its length, an entry whose id is not the
  placeholder id stays as it was, and an entry with the placeholder id becomes the
  stored row.
\<close>

theorem reconcile_in_place:
  "messages (handleSend_settle tempMsg c (Inr data) st) = reconcile (msg_id tempMsg) data (messages st) \<and>
   length (reconcile tempId data prev) = length prev \<and>
   (\<forall>i < length prev. msg_id (prev ! i) \<noteq> tempId \<longrightarrow> reconcile tempId data prev ! i = prev ! i) \<and>
   (\<forall>i < length prev. msg_id (prev ! i) = tempId \<longrightarrow> reconcile tempId data prev ! i = data)"
  by (simp add: handleSend_settle_def reconcile_def)

theorem reconcile_in_place_witness:
  "messages (handleSend_settle (Msg ''temp-5'' 7 1 ''hi'' 5) (js ''hi'') (Inr (Msg ''s9'' 7 1 ''hi'' 6))
      (Chat [Msg ''s1'' 7 2 ''yo'' 3, Msg ''temp-5'' 7 1 ''hi'' 5, Msg ''s2'' 7 2 ''ok'' 6] [] True (Some 7)))
     = [Msg ''s1'' 7 2 ''yo'' 3, Msg ''s9'' 7 1 ''hi'' 6, Msg ''s2'' 7 2 ''ok'' 6] \<and>
   length (reconcile (js ''temp-5'') (Msg ''s9'' 7 1 ''hi'' 6)
      [Msg ''s1'' 7 2 ''yo'' 3, Msg ''temp-5'' 7 1 ''hi'' 5, Msg ''s2'' 7 2 ''ok'' 6]) = 3 \<and>
   reconcile (js ''temp-5'') (Msg ''s9'' 7 1 ''hi'' 6)
      [Msg ''s1'' 7 2 ''yo'' 3, Msg ''temp-5'' 7 1 ''hi'' 5, Msg ''s2'' 7 2 ''ok'' 6] ! 0 = Msg ''s1'' 7 2 ''yo'' 3 \<and>
   reconcile (js ''temp-5'') (Msg ''s9'' 7 1 ''hi'' 6)
      [Msg ''s1'' 7 2 ''yo'' 3, Msg ''temp-5'' 7 1 ''hi'' 5, Msg ''s2'' 7 2 ''ok'' 6] ! 1 = Msg ''s9'' 7 1 ''hi'' 6"
  using reconcile_in_place
    [of "Msg ''temp-5'' 7 1 ''hi'' 5" "js ''hi''" "Msg ''s9'' 7 1 ''hi'' 6"
        "Chat [Msg ''s1'' 7 2 ''yo'' 3, Msg ''temp-5'' 7 1 ''hi'' 5, Msg ''s2'' 7 2 ''ok'' 6] [] True (Some 7)"
        "js ''temp-5''"
        "[Msg ''s1'' 7 2 ''yo'' 3, Msg ''temp-5'' 7 1 ''hi'' 5, Msg ''s2'' 7 2 ''ok'' 6]"]
  by (simp add: reconcile_def js_def)

section \<open>The sending flag\<close>

text \<open>
  C6. The part of \<open>handleSend\<close> that runs once the write has answered leaves the
  sending flag false from every state and on both outcomes. A send that passes the
  guard sets the flag on submit and then is that part, run on the submitted state
  with whatever the channel delivered in between; so after it the flag is false,
  whether the write stored the row or failed.
\<close>

theorem sending_cleared:
  "\<not> sending (handleSend_settle tempMsg c answer st0) \<and>
   (conversationIdRef st = Some convId \<and> profile_id = Some pid \<and>
    trim (newMessage st) \<noteq> [] \<and> \<not> sending st \<longrightarrow>
      sending (fst (handleSend_submit profile_id now created st)) \<and>
      (\<exists>tempMsg' st1.
          handleSend_submit profile_id now created st = (st1, Some (tempMsg', trim (newMessage st))) \<and>
          sending st1 \<and>
          handleSend profile_id now created pushed answer st
            = handleSend_settle tempMsg' (trim (newMessage st)) answer
                (st1\<lparr>messages := on_inserts pushed (messages st1)\<rparr>)) \<and>
      \<not> sending (handleSend profile_id now created pushed (Inr data) st) \<and>
      \<not> sending (handleSend profile_id now created pushed (Inl error) st))"
proof (intro conjI impI)
  show "\<not> sending (handleSend_settle tempMsg c answer st0)"
    by (simp add: handleSend_settle_def split: sum.splits)
next
  assume g: "conversationIdRef st = Some convId \<and> profile_id = Some pid \<and>
    trim (newMessage st) \<noteq> [] \<and> \<not> sending st"
  then show "sending (fst (handleSend_submit profile_id now created st))"
    by (simp add: handleSend_submit_def Let_def)
  from g show "\<exists>tempMsg' st1.
          handleSend_submit profile_id now created st = (st1, Some (tempMsg', trim (newMessage st))) \<and>
          sending st1 \<and>
          handleSend profile_id now created pushed answer st
            = handleSend_settle tempMsg' (trim (newMessage st)) answer
                (st1\<lparr>messages := on_inserts pushed (messages st1)\<rparr>)"
    by (simp add: handleSend_def handleSend_submit_def Let_def)
  from g show "\<not> sending (handleSend profile_id now created pushed (Inr data) st)"
    by (simp add: handleSend_def handleSend_submit_def handleSend_settle_def Let_def)
  from g show "\<not> sending (handleSend profile_id now created pushed (Inl error) st)"
    by (simp add: handleSend_def handleSend_submit_def handleSend_settle_def Let_def)
qed

theorem sending_cleared_witness:
  "\<not> sending (handleSend_settle (Msg ''temp-5'' 7 1 ''hi'' 5) (js ''hi'') (Inl RejectedPromise)
      (Chat [Msg ''temp-5'' 7 1 ''hi'' 5] [] True (Some 7))) \<and>
   \<not> sending (handleSend_settle (Msg ''temp-5'' 7 1 ''hi'' 5) (js ''hi'') (Inr (Msg ''s9'' 7 1 ''hi'' 6))
      (Chat [Msg ''temp-5'' 7 1 ''hi'' 5] [] True (Some 7))) \<and>
   conversationIdRef (Chat [] ''hi'' False (Some 7)) = Some 7 \<and>
   trim (newMessage (Chat [] ''hi'' False (Some 7))) \<noteq> [] \<and>
   \<not> sending (Chat [] ''hi'' False (Some 7)) \<and>
   handleSend_submit (Some 1) 5 5 (Chat [] ''hi'' False (Some 7))
     = (Chat [Msg ''temp-5'' 7 1 ''hi'' 5] [] True (Some 7), Some (Msg ''temp-5'' 7 1 ''hi'' 5, js ''hi'')) \<and>
   sending (fst (handleSend_submit (Some 1) 5 5 (Chat [] ''hi'' False (Some 7)))) \<and>
   \<not> sending (handleSend (Some 1) 5 5 [] (Inr (Msg ''s9'' 7 1 ''hi'' 6)) (Chat [] ''hi'' False (Some 7))) \<and>
   \<not> sending (handleSend (Some 1) 5 5 [] (Inl RejectedPromise) (Chat [] ''hi'' False (Some 7)))"
proof -
  have g: "trim (newMessage (Chat [] ''hi'' False (Some 7))) = js ''hi''"
    by (simp add: trim_def is_white_space_def js_def)
  have n: "js ''hi'' \<noteq> []"
    by (simp add: js_def)
  have t: "temp_id 5 = js ''temp-5''"
    by (simp add: temp_id_def js_def)
  have s: "handleSend_submit (Some 1) 5 5 (Chat [] ''hi'' False (Some 7))
     = (Chat [Msg ''temp-5'' 7 1 ''hi'' 5] [] True (Some 7), Some (Msg ''temp-5'' 7 1 ''hi'' 5, js ''hi''))"
    by (simp add: handleSend_submit_def Let_def temp_id_def trim_def is_white_space_def js_def)
  show ?thesis
    using g n s
      sending_cleared [where tempMsg = "Msg ''temp-5'' 7 1 ''hi'' 5" and c = "js ''hi''"
        and answer = "Inl RejectedPromise"
        and ?st0.0 = "Chat [Msg ''temp-5'' 7 1 ''hi'' 5] [] True (Some 7)"
        and st = "Chat [] ''hi'' False (Some 7)" and convId = 7 and profile_id = "Some 1"
        and pid = 1 and now = 5 and created = 5 and pushed = "[]"
        and data = "Msg ''s9'' 7 1 ''hi'' 6" and error = RejectedPromise]
      sending_cleared [where tempMsg = "Msg ''temp-5'' 7 1 ''hi'' 5" and c = "js ''hi''"
        and answer = "Inr (Msg ''s9'' 7 1 ''hi'' 6)"
        and ?st0.0 = "Chat [Msg ''temp-5'' 7 1 ''hi'' 5] [] True (Some 7)", THEN conjunct1]
    by (simp add: on_inserts_def)
qed

section \<open>A failed send\<close>

text \<open>
  C5, as stated, fails: the draft \<^verbatim>\<open>" hi"\<close> comes back as \<^verbatim>\<open>"hi"\<close>, because the
  \<open>catch\<close> block restores the trimmed content, not the text of the input field.
\<close>

theorem restore_draft_counterexample:
  "newMessage (handleSend (Some 1) 5 5 [] (Inl RejectedPromise) (Chat [] '' hi'' False (Some 7))) = js ''hi'' \<and>
   newMessage (handleSend (Some 1) 5 5 [] (Inl RejectedPromise) (Chat [] '' hi'' False (Some 7)))
     \<noteq> newMessage (Chat [] '' hi'' False (Some 7))"
  by (simp add: handleSend_def handleSend_submit_def handleSend_settle_def Let_def trim_def
      is_white_space_def js_def on_inserts_def)

text \<open>
  C5, amended. When the write of a send that passed the guard fails, the input field is
  set to the draft with the white space at its two ends trimmed, and the message list
  is what it would be without the placeholder: no entry carries the placeholder id.
\<close>

theorem failed_send_rolls_back:
  "conversationIdRef st = Some convId \<Longrightarrow> profile_id = Some pid \<Longrightarrow>
   trim (newMessage st) \<noteq> [] \<Longrightarrow> \<not> sending st \<Longrightarrow>
   st' = handleSend profile_id now created pushed (Inl error) st \<Longrightarrow>
     newMessage st' = trim (newMessage st) \<and>
     messages st' = rollback (temp_id now) (on_inserts pushed (messages st @
        [\<lparr>msg_id = temp_id now, conversation_id = convId, sender_id = pid,
          content = trim (newMessage st), created_at = created\<rparr>])) \<and>
     temp_id now \<notin> msg_id ` set (messages st')"
  by (auto simp add: handleSend_def handleSend_submit_def handleSend_settle_def Let_def rollback_def)

theorem failed_send_rolls_back_witness:
  "trim (newMessage (Chat [Msg ''s1'' 7 2 ''yo'' 3] '' hi'' False (Some 7))) \<noteq> [] \<and>
   newMessage (handleSend (Some 1) 5 5 [Msg ''s2'' 7 2 ''ok'' 6] (Inl RejectedPromise)
      (Chat [Msg ''s1'' 7 2 ''yo'' 3] '' hi'' False (Some 7))) = js ''hi'' \<and>
   messages (handleSend (Some 1) 5 5 [Msg ''s2'' 7 2 ''ok'' 6] (Inl RejectedPromise)
      (Chat [Msg ''s1'' 7 2 ''yo'' 3] '' hi'' False (Some 7)))
     = [Msg ''s1'' 7 2 ''yo'' 3, Msg ''s2'' 7 2 ''ok'' 6]"
proof -
  have g: "trim (newMessage (Chat [Msg ''s1'' 7 2 ''yo'' 3] '' hi'' False (Some 7))) = js ''hi''"
    by (simp add: trim_def is_white_space_def js_def)
  have t: "temp_id 5 = js ''temp-5''"
    by (simp add: temp_id_def js_def)
  show ?thesis
    using g failed_send_rolls_back [of "Chat [Msg ''s1'' 7 2 ''yo'' 3] '' hi'' False (Some 7)" 7 "Some 1" 1
        _ 5 5 "[Msg ''s2'' 7 2 ''ok'' 6]" RejectedPromise, OF _ _ _ _ refl]
    by (simp add: t rollback_def on_inserts_def on_insert_def js_def)
qed

section \<open>The order of the message list\<close>

text \<open>
  C4, as stated, fails, with every clock in step and the channel delivering in commit
  order: a message is submitted at time 10 (placeholder appended), the other party's
  message is committed at 11 and pushed (appended), the own write is committed at 12
  and its row replaces the placeholder in place, ahead of the row of 11.
\<close>

theorem order_counterexample:
  "ordered_by_time (messages (Chat [] ''hi'' False (Some 7))) \<and>
   messages (handleSend (Some 1) 10 10 [Msg ''s2'' 7 2 ''yo'' 11] (Inr (Msg ''s3'' 7 1 ''hi'' 12))
      (Chat [] ''hi'' False (Some 7)))
     = [Msg ''s3'' 7 1 ''hi'' 12, Msg ''s2'' 7 2 ''yo'' 11] \<and>
   \<not> ordered_by_time (messages (handleSend (Some 1) 10 10 [Msg ''s2'' 7 2 ''yo'' 11]
      (Inr (Msg ''s3'' 7 1 ''hi'' 12)) (Chat [] ''hi'' False (Some 7))))"
  by (simp add: handleSend_def handleSend_submit_def handleSend_settle_def Let_def trim_def
      is_white_space_def js_def on_inserts_def on_insert_def reconcile_def temp_id_def
      ordered_by_time_def)

lemma ordered_select_messages: "ordered_by_time (select_messages convId rows)"
  unfolding ordered_by_time_def select_messages_def
  by (simp add: take_map [symmetric] sorted_wrt_take sorted_sort_key del: take_map)

lemma ordered_snoc:
  "ordered_by_time prev \<Longrightarrow>
   ordered_by_time (prev @ [x]) \<longleftrightarrow> (\<forall>m \<in> set prev. created_at m \<le> created_at x)"
  by (auto simp: ordered_by_time_def sorted_append)

lemma on_insert_new:
  "msg_id newMsg \<notin> msg_id ` set prev \<Longrightarrow> on_insert newMsg prev = prev @ [newMsg]"
proof -
  assume "msg_id newMsg \<notin> msg_id ` set prev"
  then have "\<not> list_ex (\<lambda>m. msg_id m = msg_id newMsg) prev"
    unfolding list_ex_iff by (metis imageI)
  then show ?thesis by (simp add: on_insert_def)
qed

lemma ordered_on_insert:
  "ordered_by_time prev \<Longrightarrow> \<forall>m \<in> set prev. created_at m \<le> created_at newMsg \<Longrightarrow>
   ordered_by_time (on_insert newMsg prev)"
  by (simp add: on_insert_def ordered_snoc)

lemma reconcile_absent: "tempId \<notin> msg_id ` set xs \<Longrightarrow> reconcile tempId data xs = xs"
  unfolding reconcile_def by (induction xs) auto

lemma reconcile_split:
  "tempId \<notin> msg_id ` set (before @ after) \<Longrightarrow> msg_id tempMsg = tempId \<Longrightarrow>
   reconcile tempId data (before @ tempMsg # after) = before @ data # after"
proof -
  assume a: "tempId \<notin> msg_id ` set (before @ after)" and b: "msg_id tempMsg = tempId"
  from a have "reconcile tempId data before = before" "reconcile tempId data after = after"
    by (auto intro: reconcile_absent)
  then show ?thesis using b by (simp add: reconcile_def)
qed

lemma ordered_replace:
  "ordered_by_time (before @ tempMsg # after) \<Longrightarrow>
   ordered_by_time (before @ data # after) \<longleftrightarrow>
     (\<forall>m \<in> set before. created_at m \<le> created_at data) \<and>
     (\<forall>m \<in> set after. created_at data \<le> created_at m)"
  by (auto simp: ordered_by_time_def sorted_append)

lemma ordered_rollback: "ordered_by_time prev \<Longrightarrow> ordered_by_time (rollback tempId prev)"
  by (simp add: ordered_by_time_def rollback_def sorted_filter)

lemma submit_messages:
  "conversationIdRef st = Some convId \<Longrightarrow> trim (newMessage st) \<noteq> [] \<Longrightarrow> \<not> sending st \<Longrightarrow>
   messages (fst (handleSend_submit (Some pid) now created st))
     = messages st @ [\<lparr>msg_id = temp_id now, conversation_id = convId, sender_id = pid,
         content = trim (newMessage st), created_at = created\<rparr>]"
  by (simp add: handleSend_submit_def Let_def)

text \<open>
  C4, amended. The client never sorts; whether a step keeps the list non-decreasing by
  creation time depends on the record it writes:
  \<^item> the page that \<open>initChat\<close> loads is non-decreasing;
  \<^item> a pushed insert whose id is already held changes nothing; one that is not
    earlier than any message held keeps the order, and one with a new id keeps it
    only then;
  \<^item> the placeholder of a send keeps the order if, and for a send that passes the
    guard only if, the client's clock is not earlier than any message held;
  \<^item> where the placeholder is the only entry with its id, replacing it by the stored
    row keeps the order if and only if that row is not earlier than the entries
    before the placeholder and not later than those after it;
  \<^item> removing the placeholder keeps the order.
\<close>

theorem order_kept_by_in_order_steps:
  "(find_or_create f (profile_rows be) uid others new_id pid other_id (conversation_rows be)
      = (rows', Inr convId) \<longrightarrow>
      ordered_by_time (messages (snd (initChat f uid others new_id pid other_id be st')))) \<and>
   (ordered_by_time prev \<and> (\<forall>m \<in> set prev. created_at m \<le> created_at newMsg) \<longrightarrow>
      ordered_by_time (on_insert newMsg prev)) \<and>
   (ordered_by_time prev \<and> msg_id dup \<in> msg_id ` set prev \<longrightarrow>
      ordered_by_time (on_insert dup prev)) \<and>
   (ordered_by_time prev \<and> msg_id newMsg \<notin> msg_id ` set prev \<and>
    ordered_by_time (on_insert newMsg prev) \<longrightarrow>
      (\<forall>m \<in> set prev. created_at m \<le> created_at newMsg)) \<and>
   (conversationIdRef st = Some convId \<and> ordered_by_time (messages st) \<and>
    (\<forall>m \<in> set (messages st). created_at m \<le> created) \<longrightarrow>
      ordered_by_time (messages (fst (handleSend_submit (Some pid) now created st)))) \<and>
   (conversationIdRef st = Some convId \<and> trim (newMessage st) \<noteq> [] \<and> \<not> sending st \<and>
    ordered_by_time (messages st) \<and>
    ordered_by_time (messages (fst (handleSend_submit (Some pid) now created st))) \<longrightarrow>
      (\<forall>m \<in> set (messages st). created_at m \<le> created)) \<and>
   (ordered_by_time (before @ tempMsg # after) \<and> msg_id tempMsg = tempId \<and>
    tempId \<notin> msg_id ` set (before @ after) \<and>
    (\<forall>m \<in> set before. created_at m \<le> created_at data) \<and>
    (\<forall>m \<in> set after. created_at data \<le> created_at m) \<longrightarrow>
      reconcile tempId data (before @ tempMsg # after) = before @ data # after \<and>
      ordered_by_time (reconcile tempId data (before @ tempMsg # after))) \<and>
   (ordered_by_time (before @ tempMsg # after) \<and> msg_id tempMsg = tempId \<and>
    tempId \<notin> msg_id ` set (before @ after) \<and>
    ordered_by_time (reconcile tempId data (before @ tempMsg # after)) \<longrightarrow>
      (\<forall>m \<in> set before. created_at m \<le> created_at data) \<and>
      (\<forall>m \<in> set after. created_at data \<le> created_at m)) \<and>
   (ordered_by_time prev \<longrightarrow> ordered_by_time (rollback tempId prev))"
proof (intro conjI impI)
  assume h: "find_or_create f (profile_rows be) uid others new_id pid other_id (conversation_rows be)
      = (rows', Inr convId)"
  show "ordered_by_time (messages (snd (initChat f uid others new_id pid other_id be st')))"
    using h ordered_select_messages [of convId "message_rows be"]
    by (simp add: initChat_def ordered_by_time_def)
next
  assume "ordered_by_time prev \<and> (\<forall>m \<in> set prev. created_at m \<le> created_at newMsg)"
  then show "ordered_by_time (on_insert newMsg prev)"
    by (simp add: ordered_on_insert)
next
  assume "ordered_by_time prev \<and> msg_id dup \<in> msg_id ` set prev"
  then show "ordered_by_time (on_insert dup prev)"
    by (auto simp: on_insert_def list_ex_iff)
next
  assume "ordered_by_time prev \<and> msg_id newMsg \<notin> msg_id ` set prev \<and>
    ordered_by_time (on_insert newMsg prev)"
  then have o: "ordered_by_time prev" and n: "msg_id newMsg \<notin> msg_id ` set prev"
    and i: "ordered_by_time (on_insert newMsg prev)"
    by blast+
  from i have "ordered_by_time (prev @ [newMsg])"
    unfolding on_insert_new [OF n] .
  with o show "\<forall>m \<in> set prev. created_at m \<le> created_at newMsg"
    using ordered_snoc by blast
next
  assume a: "conversationIdRef st = Some convId \<and> ordered_by_time (messages st) \<and>
    (\<forall>m \<in> set (messages st). created_at m \<le> created)"
  then show "ordered_by_time (messages (fst (handleSend_submit (Some pid) now created st)))"
    by (auto simp: handleSend_submit_def Let_def ordered_snoc)
next
  assume a: "conversationIdRef st = Some convId \<and> trim (newMessage st) \<noteq> [] \<and> \<not> sending st \<and>
    ordered_by_time (messages st) \<and>
    ordered_by_time (messages (fst (handleSend_submit (Some pid) now created st)))"
  then have c: "conversationIdRef st = Some convId" and t: "trim (newMessage st) \<noteq> []"
    and s: "\<not> sending st" and o: "ordered_by_time (messages st)"
    and i: "ordered_by_time (messages (fst (handleSend_submit (Some pid) now created st)))"
    by blast+
  from i have "ordered_by_time (messages st @
      [\<lparr>msg_id = temp_id now, conversation_id = convId, sender_id = pid,
        content = trim (newMessage st), created_at = created\<rparr>])"
    unfolding submit_messages [OF c t s] .
  with o show "\<forall>m \<in> set (messages st). created_at m \<le> created"
    using ordered_snoc by fastforce
next
  assume a: "ordered_by_time (before @ tempMsg # after) \<and> msg_id tempMsg = tempId \<and>
    tempId \<notin> msg_id ` set (before @ after) \<and>
    (\<forall>m \<in> set before. created_at m \<le> created_at data) \<and>
    (\<forall>m \<in> set after. created_at data \<le> created_at m)"
  then show r: "reconcile tempId data (before @ tempMsg # after) = before @ data # after"
    by (simp add: reconcile_split)
  from a show "ordered_by_time (reconcile tempId data (before @ tempMsg # after))"
    unfolding r using ordered_replace [of before tempMsg after data] by blast
next
  assume a: "ordered_by_time (before @ tempMsg # after) \<and> msg_id tempMsg = tempId \<and>
    tempId \<notin> msg_id ` set (before @ after) \<and>
    ordered_by_time (reconcile tempId data (before @ tempMsg # after))"
  then have "reconcile tempId data (before @ tempMsg # after) = before @ data # after"
    by (simp add: reconcile_split)
  with a have "ordered_by_time (before @ tempMsg # after)" "ordered_by_time (before @ data # after)"
    by simp_all
  then have b: "(\<forall>m \<in> set before. created_at m \<le> created_at data) \<and>
      (\<forall>m \<in> set after. created_at data \<le> created_at m)"
    using ordered_replace [of before tempMsg after data] by blast
  from b show "\<forall>m \<in> set before. created_at m \<le> created_at data" by blast
  from b show "\<forall>m \<in> set after. created_at data \<le> created_at m" by blast
next
  assume "ordered_by_time prev"
  then show "ordered_by_time (rollback tempId prev)" by (rule ordered_rollback)
qed

theorem order_kept_by_in_order_steps_witness:
  "find_or_create no_faults two_profiles 11 [] 100 1 2 [Conv 7 1 2] = ([Conv 7 1 2], Inr 7) \<and>
   ordered_by_time (messages (snd (initChat no_faults 11 [] 100 1 2
      \<lparr>profile_rows = two_profiles, conversation_rows = [Conv 7 1 2],
       message_rows = [Msg ''s2'' 7 2 ''yo'' 4, Msg ''s1'' 7 1 ''hi'' 3]\<rparr>
      (Chat [] [] False None)))) \<and>
   ordered_by_time [Msg ''s1'' 7 1 ''hi'' 3, Msg ''s2'' 7 2 ''yo'' 4] \<and>
   msg_id (Msg ''s3'' 7 2 ''ok'' 5) \<notin> msg_id ` set [Msg ''s1'' 7 1 ''hi'' 3, Msg ''s2'' 7 2 ''yo'' 4] \<and>
   ordered_by_time (on_insert (Msg ''s3'' 7 2 ''ok'' 5) [Msg ''s1'' 7 1 ''hi'' 3, Msg ''s2'' 7 2 ''yo'' 4]) \<and>
   msg_id (Msg ''s1'' 7 1 ''hi'' 1) \<in> msg_id ` set [Msg ''s1'' 7 1 ''hi'' 3, Msg ''s2'' 7 2 ''yo'' 4] \<and>
   ordered_by_time (on_insert (Msg ''s1'' 7 1 ''hi'' 1) [Msg ''s1'' 7 1 ''hi'' 3, Msg ''s2'' 7 2 ''yo'' 4]) \<and>
   trim (newMessage (Chat [Msg ''s1'' 7 1 ''hi'' 3, Msg ''s2'' 7 2 ''yo'' 4] ''hi'' False (Some 7))) \<noteq> [] \<and>
   ordered_by_time (messages (fst (handleSend_submit (Some 1) 5 5
      (Chat [Msg ''s1'' 7 1 ''hi'' 3, Msg ''s2'' 7 2 ''yo'' 4] ''hi'' False (Some 7))))) \<and>
   ordered_by_time ([Msg ''s1'' 7 1 ''hi'' 3] @ Msg ''temp-4'' 7 1 ''hi'' 4 # [Msg ''s2'' 7 2 ''yo'' 6]) \<and>
   js ''temp-4'' \<notin> msg_id ` set ([Msg ''s1'' 7 1 ''hi'' 3] @ [Msg ''s2'' 7 2 ''yo'' 6]) \<and>
   reconcile (js ''temp-4'') (Msg ''s9'' 7 1 ''hi'' 5)
      ([Msg ''s1'' 7 1 ''hi'' 3] @ Msg ''temp-4'' 7 1 ''hi'' 4 # [Msg ''s2'' 7 2 ''yo'' 6])
     = [Msg ''s1'' 7 1 ''hi'' 3, Msg ''s9'' 7 1 ''hi'' 5, Msg ''s2'' 7 2 ''yo'' 6] \<and>
   ordered_by_time (reconcile (js ''temp-4'') (Msg ''s9'' 7 1 ''hi'' 5)
      ([Msg ''s1'' 7 1 ''hi'' 3] @ Msg ''temp-4'' 7 1 ''hi'' 4 # [Msg ''s2'' 7 2 ''yo'' 6])) \<and>
   ordered_by_time (rollback (js ''temp-4'') [Msg ''s1'' 7 1 ''hi'' 3, Msg ''s2'' 7 2 ''yo'' 4])"
proof -
  have h1: "find_or_create no_faults two_profiles 11 [] 100 1 2 [Conv 7 1 2] = ([Conv 7 1 2], Inr 7)"
    by (simp add: find_or_create_def select_conversation_def conversations_own_def own_profiles_def)
  have h2: "ordered_by_time [Msg ''s1'' 7 1 ''hi'' 3, Msg ''s2'' 7 2 ''yo'' 4]"
    by (simp add: ordered_by_time_def)
  have h3: "ordered_by_time ([Msg ''s1'' 7 1 ''hi'' 3] @ Msg ''temp-4'' 7 1 ''hi'' 4 # [Msg ''s2'' 7 2 ''yo'' 6])"
    by (simp add: ordered_by_time_def)
  have h4: "js ''temp-4'' \<notin> msg_id ` set ([Msg ''s1'' 7 1 ''hi'' 3] @ [Msg ''s2'' 7 2 ''yo'' 6])"
    by (simp add: js_def)
  have h5: "msg_id (Msg ''s3'' 7 2 ''ok'' 5) \<notin> msg_id ` set [Msg ''s1'' 7 1 ''hi'' 3, Msg ''s2'' 7 2 ''yo'' 4]"
    by (simp add: js_def)
  have h6: "trim (newMessage (Chat [Msg ''s1'' 7 1 ''hi'' 3, Msg ''s2'' 7 2 ''yo'' 4] ''hi'' False (Some 7))) \<noteq> []"
    by (simp add: trim_def is_white_space_def js_def)
  show ?thesis
    using h1 h2 h3 h4 h5 h6 order_kept_by_in_order_steps
      [where f = no_faults and uid = 11 and others = "[]" and new_id = 100 and pid = 1
         and other_id = 2
         and be = "\<lparr>profile_rows = two_profiles, conversation_rows = [Conv 7 1 2],
             message_rows = [Msg ''s2'' 7 2 ''yo'' 4, Msg ''s1'' 7 1 ''hi'' 3]\<rparr>"
         and rows' = "[Conv 7 1 2]" and convId = 7
         and st = "Chat [Msg ''s1'' 7 1 ''hi'' 3, Msg ''s2'' 7 2 ''yo'' 4] ''hi'' False (Some 7)"
         and prev = "[Msg ''s1'' 7 1 ''hi'' 3, Msg ''s2'' 7 2 ''yo'' 4]"
         and newMsg = "Msg ''s3'' 7 2 ''ok'' 5" and dup = "Msg ''s1'' 7 1 ''hi'' 1"
         and created = 5 and now = 5
         and before = "[Msg ''s1'' 7 1 ''hi'' 3]" and tempMsg = "Msg ''temp-4'' 7 1 ''hi'' 4"
         and after = "[Msg ''s2'' 7 2 ''yo'' 6]" and tempId = "js ''temp-4''"
         and data = "Msg ''s9'' 7 1 ''hi'' 5" and st' = "Chat [] [] False None"]
    by (simp add: ordered_by_time_def)
qed

section \<open>Opening a conversation: a failed creation\<close>




section \<open>Opening a conversation from either side\<close>

text \<open>
  The lemmas below are about a table of conversations that only the insert above has
  written, and about a user who opens a conversation for a profile of their own.
\<close>

lemma insert_conversation_stored:
  "insert_conversation profiles uid i a b rows = Inr x \<Longrightarrow>
   a \<noteq> b \<and> a \<in> set (map fst profiles) \<and> b \<in> set (map fst profiles) \<and>
   (a \<in> set (own_profiles profiles uid) \<or> b \<in> set (own_profiles profiles uid))"
  by (auto simp: insert_conversation_def normalize_conversation_users_def conversations_own_def
      Let_def split: if_splits)

lemma insert_conversation_unknown_profile:
  "insert_conversation two_profiles 12 100 9 2 [] = Inl (BackendError ''23503'') \<and>
   insert_conversation two_profiles 11 100 9 2 [] = Inl (BackendError ''42501'')"
  by (simp add: insert_conversation_def normalize_conversation_users_def conversations_own_def
      own_profiles_def Let_def)














section \<open>Bootstrap and its safety timer\<close>

lemma loading_after_initAuth:
  "\<not> loading st \<Longrightarrow> \<not> loading (initAuth timeoutId now_iso session answer st)"
  by (auto simp: initAuth_def clearTimeout_def updateUserState_def Let_def
      split: option.splits session_answer.splits prod.splits)

lemma timers_after_initAuth:
  "loading (initAuth timeoutId now_iso session answer st) \<Longrightarrow>
   timers (initAuth timeoutId now_iso session answer st) = timers st"
  by (auto simp: initAuth_def clearTimeout_def updateUserState_def Let_def
      split: option.splits session_answer.splits prod.splits)

lemma advance_fires:
  "(i, due) \<in> set (timers st) \<Longrightarrow> due \<le> clock st + dt \<Longrightarrow> \<not> loading (advance dt st)"
  by (auto simp: advance_def Let_def list_ex_iff)

lemma advance_keeps_not_loading: "\<not> loading st \<Longrightarrow> \<not> loading (advance dt st)"
  by (simp add: advance_def Let_def)

lemma clock_after_initAuth: "clock (initAuth timeoutId now_iso session answer st) = clock st"
  by (auto simp: initAuth_def clearTimeout_def updateUserState_def Let_def
      split: option.splits session_answer.splits prod.splits)

text \<open>
  C7. The bootstrap effect runs on a provider that has not checked its session; the
  backend never answers the session request (\<open>session = None\<close>). Once 2000 ms have
  passed on the clock of the event loop, \<open>loading\<close> is false. The same holds for
  every other answer to the session request and to the profile fetch, among them a
  profile fetch that never answers.
\<close>

theorem bootstrap_leaves_loading:
  assumes "\<not> sessionChecked st" and "2000 \<le> dt"
  shows "\<not> loading (bootstrap listener_throws now_iso None answer dt st) \<and>
         \<not> loading (bootstrap listener_throws now_iso session answer dt st)"
proof -
  have g: "\<not> loading (bootstrap listener_throws now_iso s answer dt st)" for s
  proof (cases listener_throws)
    case True
    with assms(1) have "\<not> loading (fst (useEffect_auth listener_throws st))"
      by (simp add: useEffect_auth_def setTimeout_def)
    then show ?thesis
      using assms(1)
      by (auto simp: bootstrap_def useEffect_auth_def setTimeout_def split: prod.splits
          intro!: advance_keeps_not_loading loading_after_initAuth)
  next
    case False
    define st1 where "st1 = fst (useEffect_auth listener_throws st)"
    define st2 where "st2 = initAuth (next_timer st) now_iso s answer st1"
    from False assms(1) have e: "useEffect_auth listener_throws st = (st1, Some (next_timer st))"
      and t: "(next_timer st, clock st + 2000) \<in> set (timers st1)" and c: "clock st1 = clock st"
      by (auto simp: st1_def useEffect_auth_def setTimeout_def)
    have b: "bootstrap listener_throws now_iso s answer dt st = advance dt st2"
      by (simp add: bootstrap_def e st2_def)
    show ?thesis
    proof (cases "loading st2")
      case True
      then have "timers st2 = timers st1" unfolding st2_def by (rule timers_after_initAuth)
      moreover have "clock st2 = clock st" by (simp add: st2_def clock_after_initAuth c)
      ultimately show ?thesis
        using t assms(2) advance_fires [of "next_timer st" "clock st + 2000" st2 dt]
        by (simp add: b)
    next
      case False
      then show ?thesis by (simp add: b advance_keeps_not_loading)
    qed
  qed
  then show ?thesis by blast
qed

theorem bootstrap_leaves_loading_witness:
  "\<not> sessionChecked \<lparr>user = None, profile = None, loading = True, profileCache = Map.empty,
      sessionChecked = False, timers = [], next_timer = 0, clock = 0\<rparr> \<and>
   (2000 :: nat) \<le> 2000 \<and>
   loading (bootstrap False [] None None 1999 \<lparr>user = None, profile = None, loading = True,
      profileCache = Map.empty, sessionChecked = False, timers = [], next_timer = 0, clock = 0\<rparr>) \<and>
   \<not> loading (bootstrap False [] None None 2000 \<lparr>user = None, profile = None, loading = True,
      profileCache = Map.empty, sessionChecked = False, timers = [], next_timer = 0, clock = 0\<rparr>)"
  using bootstrap_leaves_loading [of "\<lparr>user = None, profile = None, loading = True,
      profileCache = Map.empty, sessionChecked = False, timers = [], next_timer = 0, clock = 0\<rparr>"
      2000 False "[]" None None]
  by (simp add: bootstrap_def useEffect_auth_def setTimeout_def initAuth_def advance_def Let_def)

text \<open>Until then, with a silent backend, it is the timer alone that ends the loading state.\<close>

lemma bootstrap_waits_for_timer:
  "\<not> sessionChecked st \<Longrightarrow> timers st = [] \<Longrightarrow> dt < 2000 \<Longrightarrow>
   loading (bootstrap False now_iso None answer dt st) = loading st"
  by (simp add: bootstrap_def useEffect_auth_def setTimeout_def initAuth_def advance_def Let_def)

section \<open>Sign-out and the profile cache\<close>

text \<open>
  C8. After a sign-out that the backend accepts, the published user and profile are
  cleared and the profile cache is empty. A lookup of a user id that was cached before
  returned the cached profile without a request; the same lookup now sends a request
  for that id and returns what the backend answers.
\<close>

theorem signOut_clears_cache:
  assumes "signOut error st = Inr st'" and "profileCache st userId = Some stale"
  shows "user st' = None \<and> profile st' = None \<and> profileCache st' = Map.empty \<and>
    fetchProfile now_iso (Some answer) userId (profileCache st) = Some (profileCache st, Some stale, []) \<and>
    (\<exists>cache' result. fetchProfile now_iso (Some answer) userId (profileCache st')
        = Some (cache', result, [userId])) \<and>
    fetchProfile now_iso (Some (Response (Some row) None)) userId (profileCache st')
      = Some (Map.empty(userId \<mapsto> formattedProfile now_iso row), Some (formattedProfile now_iso row), [userId])"
proof -
  from assms(1) have s: "st' = st\<lparr>user := None, profile := None, profileCache := Map.empty\<rparr>"
    by (auto simp: signOut_def split: option.splits)
  have "\<exists>cache' result. fetchProfile now_iso (Some answer) userId Map.empty = Some (cache', result, [userId])"
    by (simp add: fetchProfile_def split: sum.splits prod.splits)
  moreover have "fetchProfile now_iso (Some (Response (Some row) None)) userId Map.empty
      = Some (Map.empty(userId \<mapsto> formattedProfile now_iso row), Some (formattedProfile now_iso row), [userId])"
    by (simp add: fetchProfile_def fetchProfile_try_def rethrown_def)
  moreover have "fetchProfile now_iso (Some answer) userId (profileCache st) = Some (profileCache st, Some stale, [])"
    using assms(2) by (simp add: fetchProfile_def)
  ultimately show ?thesis by (simp add: s)
qed

theorem signOut_clears_cache_witness:
  "signOut None (Auth [9 \<mapsto> Prof 1 9 ''old'' ''a@x.io'']) = Inr (Auth Map.empty) \<and>
   [9 \<mapsto> Prof 1 9 ''old'' ''a@x.io''] (9 :: uuid) = Some (Prof 1 9 ''old'' ''a@x.io'') \<and>
   profileCache (Auth Map.empty) = Map.empty \<and>
   fetchProfile [] (Some (Response (Some (Row 1 9 ''new'' ''a@x.io'')) None)) 9 [9 \<mapsto> Prof 1 9 ''old'' ''a@x.io'']
     = Some ([9 \<mapsto> Prof 1 9 ''old'' ''a@x.io''], Some (Prof 1 9 ''old'' ''a@x.io''), []) \<and>
   fetchProfile [] (Some (Response (Some (Row 1 9 ''new'' ''a@x.io'')) None)) 9 (profileCache (Auth Map.empty))
     = Some ([9 \<mapsto> Prof 1 9 ''new'' ''a@x.io''], Some (Prof 1 9 ''new'' ''a@x.io''), [9])"
proof -
  have h: "signOut None (Auth [9 \<mapsto> Prof 1 9 ''old'' ''a@x.io'']) = Inr (Auth Map.empty)"
    by (simp add: signOut_def)
  have f: "formattedProfile [] (Row 1 9 ''new'' ''a@x.io'') = Prof 1 9 ''new'' ''a@x.io''"
    by (simp add: formattedProfile_def or_str_def js_def)
  show ?thesis
    using h signOut_clears_cache [OF h, of 9 "Prof 1 9 ''old'' ''a@x.io''" "[]"
        "Response (Some (Row 1 9 ''new'' ''a@x.io'')) None" "Row 1 9 ''new'' ''a@x.io''"]
    by (simp add: f)
qed

section \<open>What the profile cache stores\<close>

text \<open>
  C9. On a cache miss, a lookup answered with "not found" (code PGRST116, no row), with
  any other error (thrown and caught inside \<open>fetchProfile\<close>), with a rejected request
  or with no row returns \<open>null\<close> and leaves the cache as it was. A lookup answered
  with a row stores the formatted profile and returns it, and every later lookup of
  that id returns the stored profile without a request, whatever the backend would
  answer. The cache changes in no other case.
\<close>

theorem fetchProfile_caches_only_success:
  assumes "cache userId = None"
  shows
    "fetchProfile now_iso (Some (Response None (Some (BackendError ''PGRST116'')))) userId cache
       = Some (cache, None, [userId]) \<and>
     (code e \<noteq> ''PGRST116'' \<longrightarrow>
       fetchProfile_try now_iso (Response row' (Some e)) userId cache = Inl (Thrown e) \<and>
       fetchProfile now_iso (Some (Response row' (Some e))) userId cache = Some (cache, None, [userId])) \<and>
     fetchProfile now_iso (Some Rejected) userId cache = Some (cache, None, [userId]) \<and>
     fetchProfile now_iso (Some (Response None None)) userId cache = Some (cache, None, [userId]) \<and>
     fetchProfile now_iso (Some (Response (Some row) None)) userId cache
       = Some (cache(userId \<mapsto> formattedProfile now_iso row), Some (formattedProfile now_iso row), [userId]) \<and>
     fetchProfile later answer' userId (cache(userId \<mapsto> formattedProfile now_iso row))
       = Some (cache(userId \<mapsto> formattedProfile now_iso row), Some (formattedProfile now_iso row), []) \<and>
     (fetchProfile now_iso answer userId cache = Some (cache', result, requests) \<and> cache' \<noteq> cache \<longrightarrow>
       (\<exists>r error. answer = Some (Response (Some r) error) \<and> rethrown error = None \<and>
          result = Some (formattedProfile now_iso r) \<and>
          cache' = cache(userId \<mapsto> formattedProfile now_iso r)))"
proof -
  have a: "fetchProfile now_iso (Some (Response None (Some (BackendError ''PGRST116'')))) userId cache
       = Some (cache, None, [userId])"
    using assms by (simp add: fetchProfile_def fetchProfile_try_def rethrown_def)
  have b: "code e \<noteq> ''PGRST116'' \<longrightarrow>
       fetchProfile_try now_iso (Response row' (Some e)) userId cache = Inl (Thrown e) \<and>
       fetchProfile now_iso (Some (Response row' (Some e))) userId cache = Some (cache, None, [userId])"
    using assms by (simp add: fetchProfile_def fetchProfile_try_def rethrown_def)
  have c: "fetchProfile now_iso (Some Rejected) userId cache = Some (cache, None, [userId])"
    "fetchProfile now_iso (Some (Response None None)) userId cache = Some (cache, None, [userId])"
    using assms by (simp_all add: fetchProfile_def fetchProfile_try_def rethrown_def)
  have d: "fetchProfile now_iso (Some (Response (Some row) None)) userId cache
       = Some (cache(userId \<mapsto> formattedProfile now_iso row), Some (formattedProfile now_iso row), [userId])"
    using assms by (simp add: fetchProfile_def fetchProfile_try_def rethrown_def)
  have e: "fetchProfile later answer' userId (cache(userId \<mapsto> formattedProfile now_iso row))
       = Some (cache(userId \<mapsto> formattedProfile now_iso row), Some (formattedProfile now_iso row), [])"
    by (simp add: fetchProfile_def)
  have f: "fetchProfile now_iso answer userId cache = Some (cache', result, requests) \<and> cache' \<noteq> cache \<longrightarrow>
       (\<exists>r error. answer = Some (Response (Some r) error) \<and> rethrown error = None \<and>
          result = Some (formattedProfile now_iso r) \<and>
          cache' = cache(userId \<mapsto> formattedProfile now_iso r))"
    using assms
    by (auto simp: fetchProfile_def fetchProfile_try_def
        split: option.splits sum.splits response.splits prod.splits)
  from a b c d e f show ?thesis by blast
qed

theorem fetchProfile_caches_only_success_witness:
  "(Map.empty :: uuid \<rightharpoonup> Profile) 9 = None \<and>
   code (BackendError ''08006'') \<noteq> ''PGRST116'' \<and>
   fetchProfile [] (Some (Response None (Some (BackendError ''PGRST116'')))) 9 Map.empty
     = Some (Map.empty, None, [9]) \<and>
   fetchProfile [] (Some (Response None (Some (BackendError ''08006'')))) 9 Map.empty
     = Some (Map.empty, None, [9]) \<and>
   fetchProfile [] (Some (Response (Some (Row 1 9 ''ann'' ''a@x.io'')) None)) 9 Map.empty
     = Some ([9 \<mapsto> Prof 1 9 ''ann'' ''a@x.io''], Some (Prof 1 9 ''ann'' ''a@x.io''), [9]) \<and>
   fetchProfile [] None 9 [9 \<mapsto> Prof 1 9 ''ann'' ''a@x.io'']
     = Some ([9 \<mapsto> Prof 1 9 ''ann'' ''a@x.io''], Some (Prof 1 9 ''ann'' ''a@x.io''), []) \<and>
   [9 \<mapsto> Prof 1 9 ''ann'' ''a@x.io''] \<noteq> (Map.empty :: uuid \<rightharpoonup> Profile)"
proof -
  have f: "formattedProfile [] (Row 1 9 ''ann'' ''a@x.io'') = Prof 1 9 ''ann'' ''a@x.io''"
    by (simp add: formattedProfile_def or_str_def js_def)
  show ?thesis
    using fetchProfile_caches_only_success [of Map.empty 9 "[]" "BackendError ''08006''" None
        "Row 1 9 ''ann'' ''a@x.io''" "[]" None
        "Some (Response (Some (Row 1 9 ''ann'' ''a@x.io'')) None)"
        "[9 \<mapsto> Prof 1 9 ''ann'' ''a@x.io'']" "Some (Prof 1 9 ''ann'' ''a@x.io'')" "[9]"]
    by (simp add: f)
qed

end
